theory Spec2Isabelle
  imports Complex_Main "HOL-Library.Sublist" "HOL-Library.Multiset"
begin

section \<open>Frontend data model (types/hospital.ts)\<close>

text \<open>
  The dashboard's values arrive as JSON, so a TypeScript union of string literals is a
  set of strings here and a JavaScript \<open>number\<close> is a real (NaN and the infinities are
  left out). An optional field is an \<open>option\<close>.
\<close>

record Decision =
  decision_id :: string
  patient_id :: string
  patient_name :: "string option"
  agent_name :: string
  action :: string
  confidence :: real
  reasoning :: string
  timestamp :: string

text \<open>The members of the union types \<open>ActionType\<close> and \<open>WebSocketEventType\<close>.\<close>

definition ActionType :: "string set" where
  "ActionType = {''escalate'', ''observe'', ''delay'', ''transfer'', ''admit''}"


text \<open>
  A WebSocket message is whatever \<open>JSON.parse\<close> returns; the cast to \<open>WebSocketEvent\<close>
  checks nothing. The members of an object are kept in the order of the text, and of two
  members with the same name the later one is the object's property.
\<close>

datatype json =
    JNull
  | JBool bool
  | JNumber real
  | JString string
  | JArray "json list"
  | JObject "(string \<times> json) list"



section \<open>Action display (lib/display-utils.ts)\<close>

record ActionInfo =
  label :: string
  color :: string
  bgColor :: string

definition getActionInfo :: "string \<Rightarrow> ActionInfo" where
  "getActionInfo act =
     (if act = ''escalate'' then
        \<lparr>label = ''Escalate'', color = ''text-red-500'', bgColor = ''bg-red-500/10''\<rparr>
      else if act = ''transfer'' then
        \<lparr>label = ''Transfer'', color = ''text-orange-500'', bgColor = ''bg-orange-500/10''\<rparr>
      else if act = ''admit'' then
        \<lparr>label = ''Admit'', color = ''text-blue-500'', bgColor = ''bg-blue-500/10''\<rparr>
      else if act = ''observe'' then
        \<lparr>label = ''Observe'', color = ''text-yellow-500'', bgColor = ''bg-yellow-500/10''\<rparr>
      else if act = ''delay'' then
        \<lparr>label = ''Delay'', color = ''text-gray-500'', bgColor = ''bg-gray-500/10''\<rparr>
      else
        \<lparr>label = ''Unknown'', color = ''text-gray-500'', bgColor = ''bg-gray-500/10''\<rparr>)"

section \<open>The WebSocket message handler (components/layout/AppLayout.tsx)\<close>









section \<open>The decision feed cache (hooks/useDecisions.ts)\<close>

text \<open>
  \<open>addDecision\<close> rewrites the query cache entry \<open>['decisions', 50]\<close> with the updater
  \<open>(old = []) => [decision, ...old].slice(0, 50)\<close>. The cache entry is \<open>None\<close> while
  nothing has been fetched (JavaScript's \<open>undefined\<close>, for which the default parameter
  gives the empty list).
\<close>

definition addDecision_updater :: "Decision \<Rightarrow> Decision list option \<Rightarrow> Decision list" where
  "addDecision_updater decision old_opt =
     (let old = (case old_opt of None \<Rightarrow> [] | Some xs \<Rightarrow> xs)
      in take 50 (decision # old))"

definition addDecision :: "Decision \<Rightarrow> Decision list option \<Rightarrow> Decision list option" where
  "addDecision decision cache = Some (addDecision_updater decision cache)"

section \<open>Capacity bands (hooks/useCapacity.ts, components/dashboard/CapacityCard.tsx)\<close>

definition useCapacity_getCapacityColor :: "real \<Rightarrow> string" where
  "useCapacity_getCapacityColor occupancyRate =
     (if occupancyRate < 0.5 then ''available''
      else if occupancyRate < 0.7 then ''moderate''
      else ''critical'')"

definition CapacityCard_getCapacityColor :: "real \<Rightarrow> string" where
  "CapacityCard_getCapacityColor occupancyRate =
     (if occupancyRate < 0.5 then ''text-capacity-available''
      else if occupancyRate < 0.7 then ''text-capacity-moderate''
      else ''text-capacity-critical'')"

definition getProgressColor :: "real \<Rightarrow> string" where
  "getProgressColor occupancyRate =
     (if occupancyRate < 0.5 then ''bg-capacity-available''
      else if occupancyRate < 0.7 then ''bg-capacity-moderate''
      else ''bg-capacity-critical'')"

section \<open>Vital sign bands (lib/display-utils.ts)\<close>

datatype VitalStatus = Normal | Warning | Critical

definition getVitalStatus :: "string \<Rightarrow> real \<Rightarrow> VitalStatus" where
  "getVitalStatus vital v =
     (if vital = ''heart_rate'' then
        (if v < 40 \<or> v > 150 then Critical
         else if v < 50 \<or> v > 120 then Warning
         else Normal)
      else if vital = ''oxygen_saturation'' then
        (if v < 88 then Critical
         else if v < 92 then Warning
         else Normal)
      else if vital = ''blood_pressure_systolic'' then
        (if v < 80 \<or> v > 200 then Critical
         else if v < 90 \<or> v > 160 then Warning
         else Normal)
      else if vital = ''respiratory_rate'' then
        (if v < 8 \<or> v > 35 then Critical
         else if v < 10 \<or> v > 25 then Warning
         else Normal)
      else if vital = ''temperature'' then
        (if v < 35 \<or> v > 40 then Critical
         else if v < 36 \<or> v > 38 then Warning
         else Normal)
      else Normal)"

text \<open>
  The same function with the two guards of every \<open>case\<close> in the other order, the warning
  test first. It is not in the source: it is the program that the question whether the
  guard order matters compares \<open>getVitalStatus\<close> with.
\<close>

definition getVitalStatus_warning_first :: "string \<Rightarrow> real \<Rightarrow> VitalStatus" where
  "getVitalStatus_warning_first vital v =
     (if vital = ''heart_rate'' then
        (if v < 50 \<or> v > 120 then Warning
         else if v < 40 \<or> v > 150 then Critical
         else Normal)
      else if vital = ''oxygen_saturation'' then
        (if v < 92 then Warning
         else if v < 88 then Critical
         else Normal)
      else if vital = ''blood_pressure_systolic'' then
        (if v < 90 \<or> v > 160 then Warning
         else if v < 80 \<or> v > 200 then Critical
         else Normal)
      else if vital = ''respiratory_rate'' then
        (if v < 10 \<or> v > 25 then Warning
         else if v < 8 \<or> v > 35 then Critical
         else Normal)
      else if vital = ''temperature'' then
        (if v < 36 \<or> v > 38 then Warning
         else if v < 35 \<or> v > 40 then Critical
         else Normal)
      else Normal)"

text \<open>The \<open>case\<close> labels of the \<open>switch\<close> in \<open>getVitalStatus\<close>.\<close>

definition recognizedVitals :: "string set" where
  "recognizedVitals = {''heart_rate'', ''oxygen_saturation'', ''blood_pressure_systolic'',
     ''respiratory_rate'', ''temperature''}"

text \<open>The condition of the first guard of each \<open>case\<close> (the one returning \<open>'critical'\<close>).\<close>

definition criticalBounds :: "string \<Rightarrow> real \<Rightarrow> bool" where
  "criticalBounds vital v =
     (if vital = ''heart_rate'' then v < 40 \<or> v > 150
      else if vital = ''oxygen_saturation'' then v < 88
      else if vital = ''blood_pressure_systolic'' then v < 80 \<or> v > 200
      else if vital = ''respiratory_rate'' then v < 8 \<or> v > 35
      else if vital = ''temperature'' then v < 35 \<or> v > 40
      else False)"

text \<open>The condition of the second guard of each \<open>case\<close> (the one returning \<open>'warning'\<close>).\<close>

definition warningBounds :: "string \<Rightarrow> real \<Rightarrow> bool" where
  "warningBounds vital v =
     (if vital = ''heart_rate'' then v < 50 \<or> v > 120
      else if vital = ''oxygen_saturation'' then v < 92
      else if vital = ''blood_pressure_systolic'' then v < 90 \<or> v > 160
      else if vital = ''respiratory_rate'' then v < 10 \<or> v > 25
      else if vital = ''temperature'' then v < 36 \<or> v > 38
      else False)"

section \<open>MCDA engine\<close>

text \<open>The score breakdown as the frontend receives it (\<open>MCDAScores\<close>, types/hospital.ts).\<close>

record MCDAScores =
  safety_score :: real
  urgency_score :: real
  capacity_score :: real
  impact_score :: real
  weighted_total :: real

text \<open>
  Modelled from the spec: the MCDA engine (\<open>backend/reasoning/mcda.py\<close>) is not among
  the sources. Its configuration is a vector of four named weights, one per criterion
  (Safety, Urgency, Capacity, Impact).
\<close>

record MCDAWeights =
  safety_weight :: real
  urgency_weight :: real
  capacity_weight :: real
  impact_weight :: real

text \<open>
  Modelled from the spec: the engine's scoring function, missing with the engine. The
  output is \<open>weightedTotal = \<Sum> weight_i * score_i\<close> together with the per-criterion
  breakdown.
\<close>

definition weightedTotal :: "MCDAWeights \<Rightarrow> real \<Rightarrow> real \<Rightarrow> real \<Rightarrow> real \<Rightarrow> real" where
  "weightedTotal w safety urgency capacity impact =
     safety_weight w * safety + urgency_weight w * urgency
     + capacity_weight w * capacity + impact_weight w * impact"

text \<open>
  Modelled from the spec: the engine's output record, missing with the engine: the four
  criterion scores as given and their weighted total.
\<close>

definition mcdaScores :: "MCDAWeights \<Rightarrow> real \<Rightarrow> real \<Rightarrow> real \<Rightarrow> real \<Rightarrow> MCDAScores" where
  "mcdaScores w safety urgency capacity impact =
     \<lparr>safety_score = safety, urgency_score = urgency, capacity_score = capacity,
      impact_score = impact,
      weighted_total = weightedTotal w safety urgency capacity impact\<rparr>"

text \<open>A sample weight vector: non-negative weights that sum to 1.\<close>

definition sampleWeights :: MCDAWeights where
  "sampleWeights = \<lparr>safety_weight = 0.4, urgency_weight = 0.3, capacity_weight = 0.2,
     impact_weight = 0.1\<rparr>"

section \<open>MCDA ranking\<close>










section \<open>Decision engine\<close>

text \<open>
  Modelled from the spec: the decision engine (\<open>backend/reasoning/decision_engine.py\<close>)
  and the backend's enumerations are not among the sources. The trajectory of a risk
  assessment and the action of a decision are the spec's enumerations.
\<close>

datatype RiskTrajectory = Improving | Stable | Deteriorating | CriticalTrajectory

text \<open>
  Modelled from the spec: the action of an escalation decision, one of escalate, observe,
  delay, reprioritize, transfer, admit (the backend's enumeration is missing).
\<close>

datatype Action = Escalate | Observe | Delay | Reprioritize | Transfer | Admit

text \<open>
  Modelled from the spec: the safe-to-wait probability, missing with the decision
  engine. The spec fixes no formula: it is some function of the risk trajectory and the
  capacity score, here the parameter \<open>estimate\<close>, under the override that a critical
  trajectory gives 0 whatever the capacity.
\<close>

definition safeToWait ::
  "(RiskTrajectory \<Rightarrow> real \<Rightarrow> real) \<Rightarrow> RiskTrajectory \<Rightarrow> real \<Rightarrow> real" where
  "safeToWait estimate traj capacityScore =
     (if traj = CriticalTrajectory then 0 else estimate traj capacityScore)"

text \<open>
  Modelled from the spec: the action policy, missing with the decision engine. Below the
  configured threshold the action is forced to escalate; otherwise the top-ranked MCDA
  action stands.
\<close>

definition finalAction :: "real \<Rightarrow> real \<Rightarrow> Action \<Rightarrow> Action" where
  "finalAction threshold stw topRanked = (if stw < threshold then Escalate else topRanked)"

text \<open>
  Modelled from the spec: the confidence of the final decision, missing with the decision
  engine. It combines the confidences of the contributing assessments, of which there
  is at least one (\<open>c\<close>, then the others \<open>cs\<close>), keeping the smaller one at each step.
\<close>

definition finalConfidence :: "real \<Rightarrow> real list \<Rightarrow> real" where
  "finalConfidence c cs = fold min cs c"

text \<open>
  Modelled from the spec: the decision engine's result, missing with the engine: the final
  action, the combined confidence and the safe-to-wait value.
\<close>

record EngineDecision =
  final_action :: Action
  final_confidence :: real
  safe_to_wait :: real

text \<open>
  Modelled from the spec: the decision engine's entry point, missing with the engine. It
  wraps the top-ranked MCDA action with the safe-to-wait value, applies the threshold
  policy and combines the confidences.
\<close>

definition decide ::
  "(RiskTrajectory \<Rightarrow> real \<Rightarrow> real) \<Rightarrow> real \<Rightarrow> RiskTrajectory \<Rightarrow> real \<Rightarrow> Action
     \<Rightarrow> real \<Rightarrow> real list \<Rightarrow> EngineDecision" where
  "decide estimate threshold traj capacityScore topRanked c cs =
     (let stw = safeToWait estimate traj capacityScore
      in \<lparr>final_action = finalAction threshold stw topRanked,
          final_confidence = finalConfidence c cs,
          safe_to_wait = stw\<rparr>)"

text \<open>A sample estimate for the non-critical trajectories: the capacity score as a fraction.\<close>

definition sampleEstimate :: "RiskTrajectory \<Rightarrow> real \<Rightarrow> real" where
  "sampleEstimate traj capacityScore = capacityScore / 100"

section \<open>Theorems\<close>

subsection \<open>Decision feed\<close>

text \<open>
  C8. For every cached decision list and every new decision, \<open>addDecision\<close> stores a list
  whose first element is the new decision, whose remaining elements are a prefix of the
  old list in its original order (its first 49 elements), and whose length is
  \<open>min (length old + 1) 50\<close>, hence at most 50.
\<close>

theorem addDecision_newest_first_capped:
  "addDecision decision (Some old) = Some (decision # take 49 old)
   \<and> hd (addDecision_updater decision (Some old)) = decision
   \<and> tl (addDecision_updater decision (Some old)) = take 49 old
   \<and> prefix (tl (addDecision_updater decision (Some old))) old
   \<and> length (addDecision_updater decision (Some old)) = min (length old + 1) 50
   \<and> length (addDecision_updater decision (Some old)) \<le> 50"
proof -
  have upd: "addDecision_updater decision (Some old) = decision # take 49 old"
    by (simp add: addDecision_updater_def take_Cons')
  have pre: "prefix (take 49 old) old"
    by (rule take_is_prefix)
  show ?thesis
    unfolding addDecision_def upd using pre by simp
qed

subsection \<open>Capacity bands\<close>

text \<open>
  C9. For every occupancy rate the three capacity classifiers pick the same band, with
  the cut-points 0.5 and 0.7: the CapacityCard text colour is \<open>text-capacity-\<close> followed
  by the band of \<open>useCapacity\<close>'s \<open>getCapacityColor\<close>, and the progress colour is
  \<open>bg-capacity-\<close> followed by that same band.
\<close>

theorem capacity_classifiers_agree:
  "CapacityCard_getCapacityColor r = ''text-capacity-'' @ useCapacity_getCapacityColor r
   \<and> getProgressColor r = ''bg-capacity-'' @ useCapacity_getCapacityColor r
   \<and> useCapacity_getCapacityColor r \<in> {''available'', ''moderate'', ''critical''}
   \<and> (useCapacity_getCapacityColor r = ''available'' \<longleftrightarrow> r < 0.5)
   \<and> (useCapacity_getCapacityColor r = ''moderate'' \<longleftrightarrow> 0.5 \<le> r \<and> r < 0.7)
   \<and> (useCapacity_getCapacityColor r = ''critical'' \<longleftrightarrow> 0.7 \<le> r)"
  by (simp add: CapacityCard_getCapacityColor_def getProgressColor_def
      useCapacity_getCapacityColor_def)

subsection \<open>Vital sign bands\<close>

text \<open>
  C10 as stated fails: the guard order matters. At heart rate 30 the code, which tests
  the critical guard first, returns \<open>'critical'\<close>; with the two guards in the other order
  the result would be \<open>'warning'\<close>.
\<close>

theorem guard_order_matters:
  "getVitalStatus ''heart_rate'' 30 = Critical
   \<and> getVitalStatus_warning_first ''heart_rate'' 30 = Warning
   \<and> getVitalStatus ''heart_rate'' 30 \<noteq> getVitalStatus_warning_first ''heart_rate'' 30"
  by (simp add: getVitalStatus_def getVitalStatus_warning_first_def)

text \<open>
  C10, amended. For each of the five recognized vital names and every value the
  severity bands of \<open>getVitalStatus\<close> are nested: a value that satisfies the critical
  bounds also violates the warning bounds, so the guard order matters and the critical
  guard is tested first, as the code does: the result is \<open>'critical'\<close> exactly when the
  critical guard fires and \<open>'warning'\<close> or \<open>'critical'\<close> exactly when the warning guard
  fires, whereas with the warning guard first every value in the critical bounds would
  come out as \<open>'warning'\<close> and \<open>'critical'\<close> would never be returned. For every other
  vital name the result is \<open>'normal'\<close>.
\<close>

theorem getVitalStatus_bands_nested:
  "(vital \<in> recognizedVitals \<longrightarrow>
      (criticalBounds vital v \<longrightarrow> warningBounds vital v)
      \<and> getVitalStatus vital v =
          (if criticalBounds vital v then Critical
           else if warningBounds vital v then Warning else Normal)
      \<and> (getVitalStatus vital v = Critical \<longleftrightarrow> criticalBounds vital v)
      \<and> (getVitalStatus vital v \<noteq> Normal \<longleftrightarrow> warningBounds vital v)
      \<and> (criticalBounds vital v \<longrightarrow> getVitalStatus_warning_first vital v = Warning))
   \<and> getVitalStatus_warning_first vital v \<noteq> Critical
   \<and> (vital \<notin> recognizedVitals \<longrightarrow> getVitalStatus vital v = Normal)"
  by (auto simp add: recognizedVitals_def criticalBounds_def warningBounds_def
      getVitalStatus_def getVitalStatus_warning_first_def)

theorem getVitalStatus_bands_nested_witness:
  "''heart_rate'' \<in> recognizedVitals
   \<and> criticalBounds ''heart_rate'' 30 \<and> warningBounds ''heart_rate'' 30
   \<and> getVitalStatus ''heart_rate'' 30 = Critical
   \<and> getVitalStatus_warning_first ''heart_rate'' 30 = Warning
   \<and> ''pulse'' \<notin> recognizedVitals \<and> getVitalStatus ''pulse'' 30 = Normal"
  using getVitalStatus_bands_nested [of "''heart_rate''" 30]
    getVitalStatus_bands_nested [of "''pulse''" 30]
  by (simp add: recognizedVitals_def criticalBounds_def)

subsection \<open>Action display\<close>

text \<open>
  C1 as stated fails: \<open>reprioritize\<close> is not a member of the frontend's \<open>ActionType\<close>, and
  \<open>getActionInfo\<close> sends it to its \<open>default\<close> branch, which shows it as \<open>Unknown\<close>.
\<close>

theorem reprioritize_not_representable:
  "''reprioritize'' \<notin> ActionType
   \<and> getActionInfo ''reprioritize'' =
       \<lparr>label = ''Unknown'', color = ''text-gray-500'', bgColor = ''bg-gray-500/10''\<rparr>"
  by (simp add: ActionType_def getActionInfo_def)

text \<open>
  C1, amended. Every decision action that the presentation interface represents is one
  of the five values escalate, observe, delay, transfer, admit: these five are the
  members of the frontend's \<open>ActionType\<close> and each has an entry of its own in the
  action-display mapping; every other value, \<open>reprioritize\<close> included, is outside
  \<open>ActionType\<close> and is displayed by the mapping's \<open>default\<close> entry as \<open>Unknown\<close>.
\<close>

theorem five_actions_representable:
  "set [''escalate'', ''observe'', ''delay'', ''transfer'', ''admit''] = ActionType
   \<and> map (\<lambda>a. label (getActionInfo a))
         [''escalate'', ''observe'', ''delay'', ''transfer'', ''admit''] =
       [''Escalate'', ''Observe'', ''Delay'', ''Transfer'', ''Admit'']
   \<and> (act \<in> ActionType \<longrightarrow> label (getActionInfo act) \<noteq> ''Unknown'')
   \<and> (act \<notin> ActionType \<longrightarrow>
        getActionInfo act =
          \<lparr>label = ''Unknown'', color = ''text-gray-500'', bgColor = ''bg-gray-500/10''\<rparr>)"
  by (auto simp add: ActionType_def getActionInfo_def)

theorem five_actions_representable_witness:
  "''admit'' \<in> ActionType \<and> label (getActionInfo ''admit'') = ''Admit''
   \<and> ''reprioritize'' \<notin> ActionType \<and> label (getActionInfo ''reprioritize'') = ''Unknown''"
  using five_actions_representable [of "''admit''"]
    five_actions_representable [of "''reprioritize''"]
  by (simp add: ActionType_def getActionInfo_def)

subsection \<open>WebSocket message handler\<close>




subsection \<open>MCDA ranking\<close>













subsection \<open>MCDA engine\<close>

text \<open>
  C3. For every weight vector of the four criteria with non-negative weights summing
  to 1 and all four criterion scores in \<open>[0,1]\<close>, the weighted total
  \<open>\<Sum> weight_i * score_i\<close> of the MCDA output lies in \<open>[0,1]\<close>.
\<close>

theorem weighted_total_in_unit_interval:
  assumes nonneg: "0 \<le> safety_weight w" "0 \<le> urgency_weight w"
      "0 \<le> capacity_weight w" "0 \<le> impact_weight w"
    and sum_one: "safety_weight w + urgency_weight w + capacity_weight w + impact_weight w = 1"
    and safety: "0 \<le> safety" "safety \<le> 1"
    and urgency: "0 \<le> urgency" "urgency \<le> 1"
    and capacity: "0 \<le> capacity" "capacity \<le> 1"
    and impact: "0 \<le> impact" "impact \<le> 1"
  shows "weighted_total (mcdaScores w safety urgency capacity impact)
           = safety_weight w * safety + urgency_weight w * urgency
             + capacity_weight w * capacity + impact_weight w * impact
         \<and> 0 \<le> weighted_total (mcdaScores w safety urgency capacity impact)
         \<and> weighted_total (mcdaScores w safety urgency capacity impact) \<le> 1"
proof -
  have lower: "0 \<le> safety_weight w * safety" "0 \<le> urgency_weight w * urgency"
      "0 \<le> capacity_weight w * capacity" "0 \<le> impact_weight w * impact"
    using nonneg safety urgency capacity impact by simp_all
  have upper: "safety_weight w * safety \<le> safety_weight w"
      "urgency_weight w * urgency \<le> urgency_weight w"
      "capacity_weight w * capacity \<le> capacity_weight w"
      "impact_weight w * impact \<le> impact_weight w"
    using nonneg safety urgency capacity impact by (simp_all add: mult_left_le)
  have total: "weighted_total (mcdaScores w safety urgency capacity impact)
           = safety_weight w * safety + urgency_weight w * urgency
             + capacity_weight w * capacity + impact_weight w * impact"
    by (simp add: mcdaScores_def weightedTotal_def)
  from lower upper sum_one show ?thesis
    unfolding total by linarith
qed

theorem weighted_total_in_unit_interval_witness:
  "weighted_total (mcdaScores sampleWeights 1 0.5 0 1) = 0.65
   \<and> 0 \<le> weighted_total (mcdaScores sampleWeights 1 0.5 0 1)
   \<and> weighted_total (mcdaScores sampleWeights 1 0.5 0 1) \<le> 1"
  using weighted_total_in_unit_interval [of sampleWeights 1 "0.5" 0 1]
  by (simp add: sampleWeights_def)

subsection \<open>Decision engine\<close>

lemma fold_min_is_Min: "fold min cs (c::real) = Min (set (c # cs))"
  by (rule Min.set_eq_fold [symmetric])

text \<open>
  C5. For every capacity score (and every estimate used for the other trajectories) the
  safe-to-wait value the decision engine computes is 0 when the risk trajectory is
  critical.
\<close>

theorem safe_to_wait_critical_zero:
  "safeToWait estimate CriticalTrajectory capacityScore = 0
   \<and> safe_to_wait (decide estimate threshold CriticalTrajectory capacityScore topRanked c cs) = 0"
  by (simp add: safeToWait_def decide_def)

text \<open>
  C6. Whenever the computed safe-to-wait value is below the configured threshold, the
  final action is escalate whichever action the MCDA ranking placed first; otherwise
  the top-ranked MCDA action is the final action. In particular a critical trajectory
  is escalated under every positive threshold.
\<close>

theorem threshold_override:
  "(safeToWait estimate traj capacityScore < threshold \<longrightarrow>
      final_action (decide estimate threshold traj capacityScore topRanked c cs) = Escalate)
   \<and> (\<not> safeToWait estimate traj capacityScore < threshold \<longrightarrow>
      final_action (decide estimate threshold traj capacityScore topRanked c cs) = topRanked)
   \<and> (0 < threshold \<longrightarrow>
      final_action (decide estimate threshold CriticalTrajectory capacityScore topRanked c cs)
        = Escalate)"
  by (simp add: decide_def finalAction_def safeToWait_def)

theorem threshold_override_witness:
  "safeToWait sampleEstimate CriticalTrajectory 85 < 0.3
   \<and> final_action (decide sampleEstimate 0.3 CriticalTrajectory 85 Observe 0.9 [0.8]) = Escalate
   \<and> \<not> safeToWait sampleEstimate Stable 40 < 0.3
   \<and> final_action (decide sampleEstimate 0.3 Stable 40 Observe 0.9 [0.8]) = Observe"
  using threshold_override [of sampleEstimate CriticalTrajectory 85 "0.3" Observe "0.9" "[0.8]"]
    threshold_override [of sampleEstimate Stable 40 "0.3" Observe "0.9" "[0.8]"]
  by (simp add: safeToWait_def sampleEstimate_def)

text \<open>
  C7. The confidence of the final decision is the minimum of the confidences of all
  contributing assessments: it is one of them and none of them is smaller.
\<close>

theorem confidence_is_minimum:
  "final_confidence (decide estimate threshold traj capacityScore topRanked c cs)
     = Min (set (c # cs))
   \<and> final_confidence (decide estimate threshold traj capacityScore topRanked c cs)
     \<in> set (c # cs)
   \<and> (\<forall>x\<in>set (c # cs).
        final_confidence (decide estimate threshold traj capacityScore topRanked c cs) \<le> x)"
proof -
  have conf: "final_confidence (decide estimate threshold traj capacityScore topRanked c cs)
      = Min (set (c # cs))"
    by (simp add: decide_def finalConfidence_def fold_min_is_Min Let_def)
  have "Min (set (c # cs)) \<in> set (c # cs)"
    by (rule Min_in) simp_all
  moreover have "\<forall>x\<in>set (c # cs). Min (set (c # cs)) \<le> x"
    by (simp add: Min_le)
  ultimately show ?thesis unfolding conf by simp
qed

theorem confidence_is_minimum_witness:
  "final_confidence (decide sampleEstimate 0.3 Stable 40 Observe 0.9 [0.7, 0.8]) = 0.7
   \<and> (0.7::real) \<le> 0.9 \<and> (0.7::real) \<le> 0.8"
  using confidence_is_minimum [of sampleEstimate "0.3" Stable 40 Observe "0.9" "[0.7, 0.8]"]
  by simp

end
